theory Spec2Isabelle
  imports Main "HOL-Library.Multiset"
begin

section \<open>Tables and the dataframe library\<close>

text \<open>
  A cell of a loaded table is a string, a number or the missing value (pandas' NaN).
  Numbers are mathematical integers: the properties below never depend on a fractional part.
  A row maps column names to cells; a cell that a row does not list is missing.
\<close>

datatype scalar = Null | Str string | Num int

type_synonym row = "(string \<times> scalar) list"

record table =
  columns :: "string list"
  rows :: "row list"

definition cell :: "string \<Rightarrow> row \<Rightarrow> scalar" where
  "cell c r = (case map_of r c of None \<Rightarrow> Null | Some v \<Rightarrow> v)"

text \<open>\<open>df[c]\<close>: the values of one column, in row order.\<close>

definition column_values :: "table \<Rightarrow> string \<Rightarrow> scalar list" where
  "column_values df c = map (cell c) (rows df)"

text \<open>
  \<open>Series.unique()\<close>: the distinct values in order of first appearance. The missing value
  is one of them when it occurs.
\<close>

definition unique :: "scalar list \<Rightarrow> scalar list" where
  "unique xs = rev (remdups (rev xs))"

text \<open>
  The elementwise comparison \<open>df[c] == d\<close>: a missing value compares unequal to
  everything, itself included.
\<close>

definition pd_eq :: "scalar \<Rightarrow> scalar \<Rightarrow> bool" where
  "pd_eq a b = (a \<noteq> Null \<and> b \<noteq> Null \<and> a = b)"

text \<open>\<open>df[df[c] == d]\<close>: the rows selected by the comparison mask, all columns kept.\<close>

definition select_rows :: "table \<Rightarrow> string \<Rightarrow> scalar \<Rightarrow> table" where
  "select_rows df c d = df\<lparr>rows := filter (\<lambda>r. pd_eq (cell c r) d) (rows df)\<rparr>"

text \<open>
  The readers of the dataframe library are parameters of the model: each maps a path to
  the table it parses from that file, \<open>None\<close> when it raises (missing or malformed file).
  So are the order in which a group-by lists its keys, the reductions of a group's cells
  (\<open>None\<close> when the reduction raises on the cells it is given) and the rounding to two
  decimals.
\<close>

record pandas =
  read_csv :: "string \<Rightarrow> table option"
  read_excel :: "string \<Rightarrow> table option"
  read_json :: "string \<Rightarrow> table option"
  sort_keys :: "scalar list \<Rightarrow> scalar list"
  agg_min :: "scalar list \<Rightarrow> scalar option"
  agg_max :: "scalar list \<Rightarrow> scalar option"
  agg_sum :: "scalar list \<Rightarrow> scalar option"
  agg_mean :: "scalar list \<Rightarrow> scalar option"
  series_sum :: "scalar list \<Rightarrow> scalar option"
  round2 :: "scalar \<Rightarrow> scalar"

section \<open>Strings\<close>

definition endswith :: "string \<Rightarrow> string \<Rightarrow> bool" where
  "endswith s suf = (length suf \<le> length s \<and> drop (length s - length suf) s = suf)"

text \<open>
  \<open>str.lower()\<close> on the ASCII letters. No other character lowers to a letter of
  \<open>csv\<close>, \<open>json\<close> or \<open>excel\<close>, so the format test is the source's.
\<close>

definition lower_char :: "char \<Rightarrow> char" where
  "lower_char c = (let n = (of_char c :: nat) in
     if 65 \<le> n \<and> n \<le> 90 then char_of (n + 32) else c)"

definition lower :: "string \<Rightarrow> string" where
  "lower s = map lower_char s"

text \<open>\<open>s.replace(old, new)\<close> for a one-character \<open>old\<close> and \<open>new\<close>.\<close>

definition replace :: "char \<Rightarrow> char \<Rightarrow> string \<Rightarrow> string" where
  "replace old new s = map (\<lambda>c. if c = old then new else c) s"

definition slash :: char where
  "slash = CHR ''/''"

definition backslash :: char where
  "backslash = CHR 0x5C"

definition digit_char :: "nat \<Rightarrow> char" where
  "digit_char d = char_of (48 + d)"

fun str_nat :: "nat \<Rightarrow> string" where
  "str_nat n = (if n < 10 then [digit_char n] else str_nat (n div 10) @ [digit_char (n mod 10)])"

definition str_int :: "int \<Rightarrow> string" where
  "str_int i = (if i < 0 then CHR ''-'' # str_nat (nat (- i)) else str_nat (nat i))"

text \<open>\<open>str(device_id)\<close>.\<close>

fun str :: "scalar \<Rightarrow> string" where
  "str Null = ''nan''"
| "str (Str s) = s"
| "str (Num i) = str_int i"

text \<open>\<open>os.path.join(a, b)\<close> on POSIX, for a relative \<open>b\<close>.\<close>

definition path_join :: "string \<Rightarrow> string \<Rightarrow> string" where
  "path_join a b = (if a = [] \<or> last a = slash then a @ b else a @ [slash] @ b)"

section \<open>The world: file system and standard output\<close>

datatype error =
    UnsupportedInput
  | MissingColumn string
  | UnsupportedOutput
  | ReadError string
  | OSError string
  | KeyError "string list"
  | TypeError string
  | DuplicateColumn string

datatype fmt = CSV | JSON | XLSX

datatype line =
    Reading string
  | NoDeviceInList
  | Found nat "scalar list"
  | Created scalar nat string
  | Done nat string
  | Failure error
  | SummaryFailure error

text \<open>
  \<open>refused\<close> holds the paths at which the operating system refuses to create a directory
  or to write a file; \<open>files\<close> maps a path to the format and the table last written there.
\<close>

record world =
  dirs :: "string set"
  files :: "string \<rightharpoonup> fmt \<times> table"
  refused :: "string set"
  stdout :: "line list"

definition print :: "line \<Rightarrow> world \<Rightarrow> world" where
  "print l w = w\<lparr>stdout := stdout w @ [l]\<rparr>"

text \<open>\<open>os.makedirs(d, exist_ok=True)\<close>.\<close>

definition makedirs :: "string \<Rightarrow> world \<Rightarrow> error + world" where
  "makedirs d w = (if d = [] \<or> d \<in> refused w then Inl (OSError d)
     else Inr (w\<lparr>dirs := insert d (dirs w)\<rparr>))"

text \<open>\<open>to_csv\<close>, \<open>to_json\<close>, \<open>to_excel\<close>: a file at the path is overwritten.\<close>

definition to_file :: "fmt \<Rightarrow> string \<Rightarrow> table \<Rightarrow> world \<Rightarrow> error + world" where
  "to_file f p t w = (if p \<in> refused w then Inl (OSError p)
     else Inr (w\<lparr>files := (files w)(p \<mapsto> (f, t))\<rparr>))"

section \<open>Loader\<close>

definition lib_read :: "(string \<Rightarrow> table option) \<Rightarrow> string \<Rightarrow> error + table" where
  "lib_read rd p = (case rd p of None \<Rightarrow> Inl (ReadError p) | Some t \<Rightarrow> Inr t)"

text \<open>Lines 30 to 37 (and again 120 to 127): the reader is chosen by the suffix of the path.\<close>

definition load_table :: "pandas \<Rightarrow> string \<Rightarrow> error + table" where
  "load_table pd input_file =
     (if endswith input_file ''.csv'' then lib_read (read_csv pd) input_file
      else if endswith input_file ''.xlsx'' \<or> endswith input_file ''.xls''
        then lib_read (read_excel pd) input_file
      else if endswith input_file ''.json'' then lib_read (read_json pd) input_file
      else Inl UnsupportedInput)"

section \<open>Partitioner: \<open>filter_data_by_device\<close>\<close>

record device_info =
  records_count :: nat
  output_file :: string

record stats =
  total_devices :: nat
  total_records :: nat
  devices_processed :: "(scalar \<times> device_info) list"
  output_files :: "string list"

text \<open>The returned dict: \<open>{}\<close> or the four-key statistics.\<close>

datatype result = Empty | Stats stats

text \<open>\<open>d[k] = v\<close> on a dict kept in insertion order.\<close>

fun dict_set :: "'k \<Rightarrow> 'v \<Rightarrow> ('k \<times> 'v) list \<Rightarrow> ('k \<times> 'v) list" where
  "dict_set k v [] = [(k, v)]"
| "dict_set k v ((k', v') # d) =
     (if k' = k then (k', v) # d else (k', v') # dict_set k v d)"

text \<open>\<open>d in specific_devices\<close>, the list holding strings.\<close>

fun py_in :: "scalar \<Rightarrow> string list \<Rightarrow> bool" where
  "py_in (Str s) l = (s \<in> set l)"
| "py_in _ l = False"

text \<open>
  Lines 50 to 54. \<open>None\<close> and the empty list are both falsy and leave the keys as they
  are; otherwise the keys are restricted to the list, and \<open>None\<close> is returned when none
  is left (the early \<open>return {}\<close>).
\<close>

fun restrict_devices :: "string list option \<Rightarrow> scalar list \<Rightarrow> scalar list option" where
  "restrict_devices None unique_devices = Some unique_devices"
| "restrict_devices (Some specific_devices) unique_devices =
     (if specific_devices = [] then Some unique_devices
      else (let kept = filter (\<lambda>d. py_in d specific_devices) unique_devices
            in if kept = [] then None else Some kept))"

text \<open>Line 72.\<close>

definition safe_device_name :: "scalar \<Rightarrow> string" where
  "safe_device_name device_id = replace backslash CHR ''_'' (replace slash CHR ''_'' (str device_id))"

definition file_name :: "string \<Rightarrow> string \<Rightarrow> string" where
  "file_name safe ext = ''device_'' @ safe @ ext"

text \<open>Lines 74 to 87: the output path and the write, or the error raised.\<close>

definition write_device :: "string \<Rightarrow> string \<Rightarrow> string \<Rightarrow> table \<Rightarrow> world \<Rightarrow> error + string \<times> world" where
  "write_device output_dir file_format safe device_data w =
     (if lower file_format = ''csv'' then
        (let output_file = path_join output_dir (file_name safe ''.csv'')
         in case to_file CSV output_file device_data w of
              Inl e \<Rightarrow> Inl e | Inr w' \<Rightarrow> Inr (output_file, w'))
      else if lower file_format = ''json'' then
        (let output_file = path_join output_dir (file_name safe ''.json'')
         in case to_file JSON output_file device_data w of
              Inl e \<Rightarrow> Inl e | Inr w' \<Rightarrow> Inr (output_file, w'))
      else if lower file_format = ''excel'' then
        (let output_file = path_join output_dir (file_name safe ''.xlsx'')
         in case to_file XLSX output_file device_data w of
              Inl e \<Rightarrow> Inl e | Inr w' \<Rightarrow> Inr (output_file, w'))
      else Inl UnsupportedOutput)"

text \<open>
  Lines 67 to 96: the loop over the device keys. An error leaves the world as the
  iterations before it made it.
\<close>

fun process_devices ::
  "table \<Rightarrow> string \<Rightarrow> string \<Rightarrow> string \<Rightarrow> scalar list \<Rightarrow> stats \<Rightarrow> world \<Rightarrow> (error + stats) \<times> world" where
  "process_devices df output_dir device_column file_format [] st w = (Inr st, w)"
| "process_devices df output_dir device_column file_format (device_id # rest) st w =
     (let device_data = select_rows df device_column device_id;
          safe = safe_device_name device_id
      in case write_device output_dir file_format safe device_data w of
           Inl e \<Rightarrow> (Inl e, w)
         | Inr (out, w') \<Rightarrow>
             process_devices df output_dir device_column file_format rest
               (st\<lparr>devices_processed :=
                      dict_set device_id
                        \<lparr>records_count = length (rows device_data), output_file = out\<rparr>
                        (devices_processed st),
                    output_files := output_files st @ [out]\<rparr>)
               (print (Created device_id (length (rows device_data)) out) w'))"

text \<open>Lines 28 to 99: the body of the \<open>try\<close>.\<close>

definition filter_body ::
  "pandas \<Rightarrow> string \<Rightarrow> string \<Rightarrow> string \<Rightarrow> string \<Rightarrow> string list option \<Rightarrow> world
     \<Rightarrow> (error + result) \<times> world" where
  "filter_body pd input_file output_dir device_column file_format specific_devices w0 =
     (let w1 = print (Reading input_file) w0 in
      case load_table pd input_file of
        Inl e \<Rightarrow> (Inl e, w1)
      | Inr df \<Rightarrow>
          if device_column \<notin> set (columns df) then (Inl (MissingColumn device_column), w1)
          else (case makedirs output_dir w1 of
            Inl e \<Rightarrow> (Inl e, w1)
          | Inr w2 \<Rightarrow>
              (case restrict_devices specific_devices (unique (column_values df device_column)) of
                 None \<Rightarrow> (Inr Empty, print NoDeviceInList w2)
               | Some unique_devices \<Rightarrow>
                   (let w3 = print (Found (length unique_devices) unique_devices) w2;
                        st = \<lparr>total_devices = length unique_devices,
                              total_records = length (rows df),
                              devices_processed = [],
                              output_files = []\<rparr>
                    in case process_devices df output_dir device_column file_format
                              unique_devices st w3 of
                         (Inl e, w4) \<Rightarrow> (Inl e, w4)
                       | (Inr st', w4) \<Rightarrow>
                           (Inr (Stats st'),
                            print (Done (length (output_files st')) output_dir) w4)))))"

text \<open>Lines 26 and 101 to 103: every exception is caught, printed, and \<open>{}\<close> returned.\<close>

definition filter_data_by_device ::
  "pandas \<Rightarrow> string \<Rightarrow> string \<Rightarrow> string \<Rightarrow> string \<Rightarrow> string list option \<Rightarrow> world
     \<Rightarrow> result \<times> world" where
  "filter_data_by_device pd input_file output_dir device_column file_format specific_devices w0 =
     (case filter_body pd input_file output_dir device_column file_format specific_devices w0 of
        (Inl e, w) \<Rightarrow> (Empty, print (Failure e) w)
      | (Inr r, w) \<Rightarrow> (r, w))"

section \<open>Summarizer: \<open>get_device_summary\<close>\<close>

text \<open>\<open>pd.DataFrame()\<close>: no columns, no rows.\<close>

definition empty_frame :: table where
  "empty_frame = \<lparr>columns = [], rows = []\<rparr>"

text \<open>
  \<open>df.groupby(c)\<close>: a key error when the column is absent; otherwise the groups are the
  non-missing distinct values of the column, in the library's key order.
\<close>

definition groupby :: "pandas \<Rightarrow> table \<Rightarrow> string \<Rightarrow> error + scalar list" where
  "groupby pd df c =
     (if c \<notin> set (columns df) then Inl (KeyError [c])
      else Inr (sort_keys pd (filter (\<lambda>k. k \<noteq> Null) (unique (column_values df c)))))"

definition group_cells :: "table \<Rightarrow> string \<Rightarrow> scalar \<Rightarrow> string \<Rightarrow> scalar list" where
  "group_cells df c k a = map (cell a) (filter (\<lambda>r. cell c r = k) (rows df))"

text \<open>\<open>'count'\<close>: the number of non-missing cells.\<close>

definition agg_count :: "scalar list \<Rightarrow> scalar" where
  "agg_count xs = Num (int (length (filter (\<lambda>x. x \<noteq> Null) xs)))"

definition raising :: "string \<Rightarrow> scalar option \<Rightarrow> error + scalar" where
  "raising a v = (case v of None \<Rightarrow> Inl (TypeError a) | Some x \<Rightarrow> Inr x)"

text \<open>
  Lines 131 to 134, for one group: the five aggregates in the order of the dict, the first
  error winning. The conditionals on \<open>df.columns\<close> are the source's.
\<close>

definition aggregate_group :: "pandas \<Rightarrow> table \<Rightarrow> string \<Rightarrow> scalar \<Rightarrow> error + scalar list" where
  "aggregate_group pd df c k =
     (case raising ''created_at'' (agg_min pd (group_cells df c k ''created_at'')) of
        Inl e \<Rightarrow> Inl e
      | Inr first_record \<Rightarrow>
     (case raising ''created_at'' (agg_max pd (group_cells df c k ''created_at'')) of
        Inl e \<Rightarrow> Inl e
      | Inr last_record \<Rightarrow>
     (case raising ''online''
             (if ''online'' \<in> set (columns df)
              then series_sum pd (group_cells df c k ''online'')
              else Some (Str ''N/A'')) of
        Inl e \<Rightarrow> Inl e
      | Inr online_count \<Rightarrow>
     (case raising ''active_time''
             (if ''active_time'' \<in> set (columns df)
              then agg_sum pd (group_cells df c k ''active_time'')
              else agg_mean pd (group_cells df c k ''active_time'')) of
        Inl e \<Rightarrow> Inl e
      | Inr active \<Rightarrow>
          Inr [agg_count (group_cells df c k ''id''), first_record, last_record,
               online_count, active]))))"

fun aggregate_groups :: "pandas \<Rightarrow> table \<Rightarrow> string \<Rightarrow> scalar list \<Rightarrow> error + (scalar \<times> scalar list) list" where
  "aggregate_groups pd df c [] = Inr []"
| "aggregate_groups pd df c (k # ks) =
     (case aggregate_group pd df c k of
        Inl e \<Rightarrow> Inl e
      | Inr vs \<Rightarrow>
          (case aggregate_groups pd df c ks of
             Inl e \<Rightarrow> Inl e
           | Inr rest \<Rightarrow> Inr ((k, vs) # rest)))"

definition agg_keys :: "string list" where
  "agg_keys = [''id'', ''created_at'', ''online'', ''active_time'']"

text \<open>
  \<open>.agg({...})\<close>: a key error naming the keys of the dict that are not columns of the
  table; otherwise one row of aggregates per group.
\<close>

definition agg :: "pandas \<Rightarrow> table \<Rightarrow> string \<Rightarrow> scalar list \<Rightarrow> error + (scalar \<times> scalar list) list" where
  "agg pd df c ks =
     (let missing = filter (\<lambda>a. a \<notin> set (columns df)) agg_keys
      in if missing \<noteq> [] then Inl (KeyError missing) else aggregate_groups pd df c ks)"

definition summary_columns :: "string list" where
  "summary_columns =
     [''Total_Records'', ''First_Record'', ''Last_Record'', ''Online_Count'', ''Total_Active_Time'']"

text \<open>
  Lines 138 and 139: the five columns are renamed and the group key becomes the first
  column, which fails when its name is one of the five.
\<close>

definition reset_index :: "string \<Rightarrow> (scalar \<times> scalar list) list \<Rightarrow> error + table" where
  "reset_index c summary =
     (if c \<in> set summary_columns then Inl (DuplicateColumn c)
      else Inr \<lparr>columns = c # summary_columns,
                rows = map (\<lambda>(k, vs). (c, k) # zip summary_columns vs) summary\<rparr>)"

text \<open>Lines 120 to 141: the body of the \<open>try\<close>.\<close>

definition summary_body :: "pandas \<Rightarrow> string \<Rightarrow> string \<Rightarrow> error + table" where
  "summary_body pd input_file device_column =
     (case load_table pd input_file of
        Inl e \<Rightarrow> Inl e
      | Inr df \<Rightarrow>
          (case groupby pd df device_column of
             Inl e \<Rightarrow> Inl e
           | Inr ks \<Rightarrow>
               (case agg pd df device_column ks of
                  Inl e \<Rightarrow> Inl e
                | Inr summary \<Rightarrow>
                    reset_index device_column
                      (map (\<lambda>(k, vs). (k, map (round2 pd) vs)) summary))))"

text \<open>Lines 118 and 143 to 145.\<close>

definition get_device_summary :: "pandas \<Rightarrow> string \<Rightarrow> string \<Rightarrow> world \<Rightarrow> table \<times> world" where
  "get_device_summary pd input_file device_column w =
     (case summary_body pd input_file device_column of
        Inl e \<Rightarrow> (empty_frame, print (SummaryFailure e) w)
      | Inr summary \<Rightarrow> (summary, w))"

section \<open>Notions used to state the properties\<close>



text \<open>The sum of \<open>records_count\<close> over the entries of \<open>devices_processed\<close>.\<close>

definition counted :: "stats \<Rightarrow> nat" where
  "counted st = sum_list (map (\<lambda>(d, i). records_count i) (devices_processed st))"

text \<open>
  A device value is in the allow-list, every value being in it when no list is given: the
  reading of the specification.
\<close>

fun in_allow_list :: "string list option \<Rightarrow> scalar \<Rightarrow> bool" where
  "in_allow_list None v = True"
| "in_allow_list (Some l) v = (v \<in> Str ` set l)"

text \<open>
  What the code selects: a value that is not missing and, when the list is given and not
  empty, is in it.
\<close>

fun selected :: "string list option \<Rightarrow> scalar \<Rightarrow> bool" where
  "selected None v = (v \<noteq> Null)"
| "selected (Some l) v = (v \<noteq> Null \<and> (l = [] \<or> py_in v l))"

definition claimed_rows :: "string list option \<Rightarrow> string \<Rightarrow> table \<Rightarrow> row list" where
  "claimed_rows sd c df = filter (\<lambda>r. in_allow_list sd (cell c r)) (rows df)"

definition selected_rows :: "string list option \<Rightarrow> string \<Rightarrow> table \<Rightarrow> row list" where
  "selected_rows sd c df = filter (\<lambda>r. selected sd (cell c r)) (rows df)"

text \<open>The format, the extension and the path of the file written for a device key.\<close>

definition extension :: "string \<Rightarrow> string" where
  "extension file_format =
     (if lower file_format = ''csv'' then ''.csv''
      else if lower file_format = ''json'' then ''.json'' else ''.xlsx'')"

definition format_of :: "string \<Rightarrow> fmt" where
  "format_of file_format =
     (if lower file_format = ''csv'' then CSV
      else if lower file_format = ''json'' then JSON else XLSX)"

definition output_path :: "string \<Rightarrow> string \<Rightarrow> scalar \<Rightarrow> string" where
  "output_path output_dir file_format d =
     path_join output_dir (file_name (safe_device_name d) (extension file_format))"

definition supported :: "string \<Rightarrow> bool" where
  "supported file_format = (lower file_format \<in> {''csv'', ''json'', ''excel''})"

section \<open>Concrete inputs\<close>

definition sum_cells :: "scalar list \<Rightarrow> scalar option" where
  "sum_cells xs = Some (Num (sum_list [i. Num i \<leftarrow> xs]))"

text \<open>A library whose CSV reader parses the given table from every path.\<close>

definition csv_lib :: "table \<Rightarrow> pandas" where
  "csv_lib t = \<lparr>read_csv = (\<lambda>p. Some t), read_excel = (\<lambda>p. None), read_json = (\<lambda>p. None),
     sort_keys = (\<lambda>ks. ks), agg_min = (\<lambda>xs. Some Null), agg_max = (\<lambda>xs. Some Null),
     agg_sum = sum_cells, agg_mean = (\<lambda>xs. Some Null), series_sum = sum_cells,
     round2 = (\<lambda>x. x)\<rparr>"

definition world0 :: world where
  "world0 = \<lparr>dirs = {}, files = Map.empty, refused = {}, stdout = []\<rparr>"

text \<open>The scenario of the specification: three rows, devices A, B, A.\<close>

definition scenario :: table where
  "scenario = \<lparr>columns = [''id'', ''device''],
     rows = [[(''id'', Num 1), (''device'', Str ''A'')],
             [(''id'', Num 2), (''device'', Str ''B'')],
             [(''id'', Num 3), (''device'', Str ''A'')]]\<rparr>"

text \<open>One row whose device cell is missing.\<close>

definition missing_device :: table where
  "missing_device = \<lparr>columns = [''id'', ''device''],
     rows = [[(''id'', Num 1), (''device'', Null)]]\<rparr>"


text \<open>A header and no row.\<close>

definition header_only :: table where
  "header_only = \<lparr>columns = [''id'', ''device''], rows = []\<rparr>"

text \<open>Every column the summary reads except \<open>online\<close>.\<close>

definition no_online :: table where
  "no_online = \<lparr>columns = [''id'', ''device'', ''created_at'', ''active_time''],
     rows = [[(''id'', Num 1), (''device'', Str ''A''), (''created_at'', Str ''2024-01-01''),
              (''active_time'', Num 5)]]\<rparr>"

text \<open>Every column the summary reads except \<open>id\<close>.\<close>

definition no_id :: table where
  "no_id = \<lparr>columns = [''device'', ''created_at'', ''online'', ''active_time''],
     rows = [[(''device'', Str ''A''), (''created_at'', Str ''2024-01-01''),
              (''online'', Num 1), (''active_time'', Num 5)]]\<rparr>"

text \<open>
  The call \<open>filter_data_by_device("device_log.csv", "device_data", "device", ff, sd)\<close> on a
  file holding the table, in a world with no directory, no file and nothing refused.
\<close>

definition run :: "table \<Rightarrow> string \<Rightarrow> string list option \<Rightarrow> result \<times> world" where
  "run t ff sd =
     filter_data_by_device (csv_lib t) ''device_log.csv'' ''device_data'' ''device'' ff sd world0"

definition scenario_stats :: stats where
  "scenario_stats = \<lparr>total_devices = 2, total_records = 3,
      devices_processed =
        [(Str ''A'', \<lparr>records_count = 2, output_file = ''device_data/device_A.csv''\<rparr>),
         (Str ''B'', \<lparr>records_count = 1, output_file = ''device_data/device_B.csv''\<rparr>)],
      output_files = [''device_data/device_A.csv'', ''device_data/device_B.csv'']\<rparr>"

definition only_B_stats :: stats where
  "only_B_stats = \<lparr>total_devices = 1, total_records = 3,
      devices_processed =
        [(Str ''B'', \<lparr>records_count = 1, output_file = ''device_data/device_B.csv''\<rparr>)],
      output_files = [''device_data/device_B.csv'']\<rparr>"

definition missing_device_stats :: stats where
  "missing_device_stats = \<lparr>total_devices = 1, total_records = 1,
      devices_processed =
        [(Null, \<lparr>records_count = 0, output_file = ''device_data/device_nan.csv''\<rparr>)],
      output_files = [''device_data/device_nan.csv'']\<rparr>"


definition no_device_stats :: stats where
  "no_device_stats = \<lparr>total_devices = 0, total_records = 0,
      devices_processed = [], output_files = []\<rparr>"


section \<open>Auxiliary facts\<close>

lemma dict_set_fresh: "k \<notin> fst ` set d \<Longrightarrow> dict_set k v d = d @ [(k, v)]"
  by (induction d) auto

lemma set_unique: "set (unique xs) = set xs"
  by (simp add: unique_def)

lemma distinct_unique: "distinct (unique xs)"
  by (simp add: unique_def)

lemma write_device_Inr:
  assumes "write_device od ff safe t w = Inr (out, w')"
  shows "supported ff \<and> out = path_join od (file_name safe (extension ff)) \<and> out \<notin> refused w
         \<and> w' = w\<lparr>files := (files w)(out \<mapsto> (format_of ff, t))\<rparr>"
  using assms
  by (auto simp: write_device_def supported_def extension_def format_of_def to_file_def Let_def
           split: if_splits sum.splits)

lemma write_device_unsupported:
  "\<not> supported ff \<Longrightarrow> write_device od ff safe t w = Inl UnsupportedOutput"
  by (simp add: write_device_def supported_def)

lemma process_devices_Inr:
  assumes "process_devices df od c ff ks st w = (Inr st', w')"
  shows "total_devices st' = total_devices st \<and> total_records st' = total_records st
       \<and> output_files st' = output_files st @ map (output_path od ff) ks
       \<and> dirs w' = dirs w \<and> refused w' = refused w
       \<and> files w' = fold (\<lambda>d m. m(output_path od ff d \<mapsto> (format_of ff, select_rows df c d))) ks (files w)"
  using assms
proof (induction ks arbitrary: st w)
  case Nil
  then show ?case by simp
next
  case (Cons d ks)
  from Cons.prems obtain out w1 where
    wd: "write_device od ff (safe_device_name d) (select_rows df c d) w = Inr (out, w1)"
    by (auto simp: Let_def split: sum.splits)
  note F = write_device_Inr[OF wd]
  from F have out: "out = output_path od ff d" by (simp add: output_path_def)
  let ?st = "st\<lparr>devices_processed :=
                      dict_set d
                        \<lparr>records_count = length (rows (select_rows df c d)), output_file = out\<rparr>
                        (devices_processed st),
                    output_files := output_files st @ [out]\<rparr>"
  let ?w = "print (Created d (length (rows (select_rows df c d))) out) w1"
  from Cons.prems wd have rec: "process_devices df od c ff ks ?st ?w = (Inr st', w')"
    by (simp add: Let_def)
  from Cons.IH[OF rec] F out show ?case
    by (simp add: print_def)
qed

lemma process_devices_processed:
  assumes "process_devices df od c ff ks st w = (Inr st', w')"
    and "distinct ks" and "set ks \<inter> fst ` set (devices_processed st) = {}"
  shows "devices_processed st' = devices_processed st @
           map (\<lambda>d. (d, \<lparr>records_count = length (rows (select_rows df c d)),
                         output_file = output_path od ff d\<rparr>)) ks"
  using assms
proof (induction ks arbitrary: st w)
  case Nil
  then show ?case by simp
next
  case (Cons d ks)
  from Cons.prems(1) obtain out w1 where
    wd: "write_device od ff (safe_device_name d) (select_rows df c d) w = Inr (out, w1)"
    by (auto simp: Let_def split: sum.splits)
  note F = write_device_Inr[OF wd]
  from F have out: "out = output_path od ff d" by (simp add: output_path_def)
  let ?info = "\<lparr>records_count = length (rows (select_rows df c d)), output_file = out\<rparr>"
  let ?st = "st\<lparr>devices_processed := dict_set d ?info (devices_processed st),
                    output_files := output_files st @ [out]\<rparr>"
  let ?w = "print (Created d (length (rows (select_rows df c d))) out) w1"
  from Cons.prems(1) wd have rec: "process_devices df od c ff ks ?st ?w = (Inr st', w')"
    by (simp add: Let_def)
  from Cons.prems(3) have fresh: "d \<notin> fst ` set (devices_processed st)" by auto
  have dp: "devices_processed ?st = devices_processed st @ [(d, ?info)]"
    using dict_set_fresh[OF fresh] by simp
  have disj: "set ks \<inter> fst ` set (devices_processed ?st) = {}"
    using Cons.prems(2,3) dp by auto
  from Cons.prems(2) have dks: "distinct ks" by simp
  from Cons.IH[OF rec dks disj] dp out show ?case by simp
qed

lemma mset_groups:
  "distinct ks \<Longrightarrow>
   sum_list (map (\<lambda>d. mset (filter (\<lambda>r. pd_eq (f r) d) rs)) ks)
     = mset (filter (\<lambda>r. f r \<noteq> Null \<and> f r \<in> set ks) rs)"
proof (induction ks)
  case Nil
  then show ?case by simp
next
  case (Cons d ks)
  have "mset (filter (\<lambda>r. pd_eq (f r) d) rs) + mset (filter (\<lambda>r. f r \<noteq> Null \<and> f r \<in> set ks) rs)
        = mset (filter (\<lambda>r. f r \<noteq> Null \<and> f r \<in> set (d # ks)) rs)"
    using Cons.prems by (induction rs) (auto simp: pd_eq_def)
  with Cons show ?case by simp
qed


lemma restrict_devices_Some:
  assumes "restrict_devices sd (unique vs) = Some ks"
  shows "distinct ks \<and> set ks \<subseteq> set vs
       \<and> (\<forall>v. v \<noteq> Null \<longrightarrow> (v \<in> set ks \<longleftrightarrow> v \<in> set vs \<and> selected sd v))"
proof (cases sd)
  case None
  with assms show ?thesis by (auto simp: set_unique distinct_unique)
next
  case (Some l)
  with assms show ?thesis
    by (cases "l = []") (auto simp: set_unique distinct_unique Let_def split: if_splits)
qed

lemma selected_not_Null: "selected sd v \<Longrightarrow> v \<noteq> Null"
  by (cases sd) auto

lemma rows_of_keys:
  assumes "restrict_devices sd (unique (column_values df c)) = Some ks"
  shows "filter (\<lambda>r. cell c r \<noteq> Null \<and> cell c r \<in> set ks) (rows df) = selected_rows sd c df"
  unfolding selected_rows_def
proof (rule filter_cong[OF refl])
  fix r assume r: "r \<in> set (rows df)"
  then have "cell c r \<in> set (column_values df c)" by (simp add: column_values_def)
  with restrict_devices_Some[OF assms] selected_not_Null[of sd "cell c r"]
  show "(cell c r \<noteq> Null \<and> cell c r \<in> set ks) = selected sd (cell c r)" by blast
qed

lemma filter_Stats:
  assumes "filter_data_by_device pd f od c ff sd w = (Stats st, w')"
    and "load_table pd f = Inr df"
  shows "\<exists>ks w4. c \<in> set (columns df) \<and> od \<noteq> [] \<and> od \<notin> refused w
     \<and> restrict_devices sd (unique (column_values df c)) = Some ks
     \<and> process_devices df od c ff ks
          \<lparr>total_devices = length ks, total_records = length (rows df),
             devices_processed = [], output_files = []\<rparr>
          (w\<lparr>dirs := insert od (dirs w), stdout := stdout w @ [Reading f, Found (length ks) ks]\<rparr>)
          = (Inr st, w4)
     \<and> w' = print (Done (length (output_files st)) od) w4"
  using assms
  by (auto simp: filter_data_by_device_def filter_body_def Let_def makedirs_def print_def
           split: sum.splits if_splits option.splits prod.splits)


lemma size_groups:
  "sum_list (map (\<lambda>d. length (filter (P d) rs)) ks)
     = size (sum_list (map (\<lambda>d. mset (filter (P d) rs)) ks))"
  by (induction ks) (simp_all del: mset_filter)

lemma counted_keys:
  assumes "devices_processed st =
           map (\<lambda>d. (d, \<lparr>records_count = length (rows (select_rows df c d)),
                         output_file = g d\<rparr>)) ks"
  shows "counted st = sum_list (map (\<lambda>d. length (filter (\<lambda>r. pd_eq (cell c r) d) (rows df))) ks)"
  by (simp add: counted_def assms select_rows_def comp_def)

lemma counted_selected:
  assumes "filter_data_by_device pd f od c ff sd w = (Stats st, w')"
    and "load_table pd f = Inr df"
  shows "counted st = length (selected_rows sd c df)"
proof -
  from filter_Stats[OF assms] obtain ks w4 where
    rd: "restrict_devices sd (unique (column_values df c)) = Some ks"
    and pr: "process_devices df od c ff ks
          \<lparr>total_devices = length ks, total_records = length (rows df),
             devices_processed = [], output_files = []\<rparr>
          (w\<lparr>dirs := insert od (dirs w), stdout := stdout w @ [Reading f, Found (length ks) ks]\<rparr>)
          = (Inr st, w4)"
    by blast
  from restrict_devices_Some[OF rd] have dk: "distinct ks" by simp
  from process_devices_processed[OF pr dk]
  have "devices_processed st =
           map (\<lambda>d. (d, \<lparr>records_count = length (rows (select_rows df c d)),
                         output_file = output_path od ff d\<rparr>)) ks" by simp
  from counted_keys[OF this]
  have "counted st = size (mset (filter (\<lambda>r. cell c r \<noteq> Null \<and> cell c r \<in> set ks) (rows df)))"
    by (simp only: size_groups mset_groups[OF dk])
  with rows_of_keys[OF rd] show ?thesis by simp
qed





lemmas eval_defs = run_def filter_data_by_device_def filter_body_def load_table_def lib_read_def
  endswith_def makedirs_def print_def unique_def column_values_def cell_def
  write_device_def to_file_def lower_def lower_char_def safe_device_name_def replace_def
  file_name_def path_join_def slash_def backslash_def select_rows_def pd_eq_def csv_lib_def
  world0_def Let_def

lemma load_scenario: "load_table (csv_lib scenario) ''device_log.csv'' = Inr scenario"
  by (simp add: eval_defs)

lemma py_in_iff: "py_in d sd \<longleftrightarrow> d \<in> Str ` set sd"
  by (cases d) auto

lemma restrict_nonempty:
  "sd \<noteq> [] \<Longrightarrow> restrict_devices (Some sd) ks =
     (if set ks \<inter> Str ` set sd = {} then None else Some (filter (\<lambda>d. d \<in> Str ` set sd) ks))"
  by (auto simp: Let_def py_in_iff filter_empty_conv)

lemma scenario_has_device: "''device'' \<in> set (columns scenario)"
  by (simp add: scenario_def)

lemma world0_accepts: "''device_data'' \<noteq> [] \<and> ''device_data'' \<notin> refused world0"
  by (simp add: world0_def)


lemma process_devices_ok:
  assumes "supported ff" and "\<forall>d\<in>set ks. output_path od ff d \<notin> refused w"
  shows "\<exists>st' w'. process_devices df od c ff ks st w = (Inr st', w')"
  using assms
proof (induction ks arbitrary: st w)
  case Nil
  then show ?case by simp
next
  case (Cons d ks)
  let ?out = "output_path od ff d"
  let ?t = "select_rows df c d"
  have wd: "write_device od ff (safe_device_name d) ?t w
              = Inr (?out, w\<lparr>files := (files w)(?out \<mapsto> (format_of ff, ?t))\<rparr>)"
    using Cons.prems
    by (auto simp: write_device_def supported_def output_path_def extension_def format_of_def
          to_file_def Let_def)
  let ?w = "print (Created d (length (rows ?t)) ?out)
              (w\<lparr>files := (files w)(?out \<mapsto> (format_of ff, ?t))\<rparr>)"
  have "\<forall>d\<in>set ks. output_path od ff d \<notin> refused ?w"
    using Cons.prems(2) by (simp add: print_def)
  from Cons.IH[OF Cons.prems(1) this] wd show ?case by (simp add: Let_def)
qed

text \<open>
  A format other than the three is rejected as soon as one device key is processed: the
  directory exists by then, no file does.
\<close>

lemma unsupported_format_rejected:
  assumes "load_table pd f = Inr df" and "c \<in> set (columns df)"
    and "od \<noteq> []" and "od \<notin> refused w"
    and "restrict_devices sd (unique (column_values df c)) = Some (k # ks)"
    and "\<not> supported ff"
  shows "filter_data_by_device pd f od c ff sd w
           = (Empty, w\<lparr>dirs := insert od (dirs w),
                       stdout := stdout w @ [Reading f, Found (Suc (length ks)) (k # ks),
                                             Failure UnsupportedOutput]\<rparr>)"
  using assms
  by (simp add: filter_data_by_device_def filter_body_def Let_def print_def makedirs_def
        write_device_unsupported)

text \<open>
  With one of the three formats, in any letter case, and an operating system that refuses
  nothing, the call succeeds whenever the table loads, has the column, and the allow-list
  leaves a key or is not given.
\<close>

lemma supported_format_accepted:
  assumes "load_table pd f = Inr df" and "c \<in> set (columns df)"
    and "od \<noteq> []" and "refused w = {}"
    and "restrict_devices sd (unique (column_values df c)) = Some ks"
    and "supported ff"
  shows "\<exists>st w'. filter_data_by_device pd f od c ff sd w = (Stats st, w')"
proof -
  let ?w3 = "w\<lparr>dirs := insert od (dirs w), stdout := stdout w @ [Reading f, Found (length ks) ks]\<rparr>"
  let ?st = "\<lparr>total_devices = length ks, total_records = length (rows df),
             devices_processed = [], output_files = []\<rparr>"
  have "\<forall>d\<in>set ks. output_path od ff d \<notin> refused ?w3" using assms(4) by simp
  from process_devices_ok[OF assms(6) this, of df c ?st] obtain st' w' where
    "process_devices df od c ff ks ?st ?w3 = (Inr st', w')" by blast
  with assms show ?thesis
    by (simp add: filter_data_by_device_def filter_body_def Let_def print_def makedirs_def)
qed

text \<open>
  The summary of a table without the \<open>online\<close> column is the empty table: the marker
  of line 133 is never produced.
\<close>

lemma summary_requires_online:
  assumes "load_table pd f = Inr df" and "''online'' \<notin> set (columns df)"
  shows "fst (get_device_summary pd f c w) = empty_frame"
  using assms
  by (auto simp: get_device_summary_def summary_body_def groupby_def agg_def agg_keys_def
        Let_def split: sum.splits)

section \<open>The partition of the rows (C1)\<close>




section \<open>The sum of the record counts (C2)\<close>

text \<open>
  C2 as stated fails on the code: a row whose device cell is missing is excluded by no
  allow-list and is counted for no device.
\<close>

theorem records_count_counterexample:
  "fst (run missing_device ''csv'' None) = Stats missing_device_stats
   \<and> counted missing_device_stats = 0
   \<and> length (claimed_rows None ''device'' missing_device) = 1"
proof -
  have a: "fst (run missing_device ''csv'' None) = Stats missing_device_stats"
    by code_simp
  have b: "counted missing_device_stats = 0"
    by (simp add: counted_def missing_device_stats_def)
  have c: "length (claimed_rows None ''device'' missing_device) = 1"
    by (simp add: claimed_rows_def missing_device_def)
  from a b c show ?thesis by blast
qed

text \<open>
  C2, amended: for every successful call, the sum of \<open>records_count\<close> over the entries
  of \<open>devices_processed\<close> is the number of input rows whose device value is not missing
  and is in the allow-list (every non-missing value when the list is \<open>None\<close> or empty).
\<close>

theorem records_count_sum:
  assumes "filter_data_by_device pd f od c ff sd w = (Stats st, w')"
    and "load_table pd f = Inr df"
  shows "counted st = length (selected_rows sd c df)"
  using assms by (rule counted_selected)

theorem records_count_sum_witness:
  "run scenario ''csv'' (Some [''B'', ''Z''])
     = (Stats only_B_stats, snd (run scenario ''csv'' (Some [''B'', ''Z''])))
   \<and> load_table (csv_lib scenario) ''device_log.csv'' = Inr scenario
   \<and> counted only_B_stats = length (selected_rows (Some [''B'', ''Z'']) ''device'' scenario)
   \<and> counted only_B_stats = 1"
proof -
  have "fst (run scenario ''csv'' (Some [''B'', ''Z''])) = Stats only_B_stats"
    by code_simp
  then have r: "run scenario ''csv'' (Some [''B'', ''Z''])
     = (Stats only_B_stats, snd (run scenario ''csv'' (Some [''B'', ''Z''])))"
    by (simp add: prod_eq_iff)
  have c: "counted only_B_stats = 1"
    by (simp add: counted_def only_B_stats_def)
  from records_count_sum[OF r[unfolded run_def] load_scenario] r load_scenario c
  show ?thesis by simp
qed

section \<open>The total row count under an allow-list (C9)\<close>

text \<open>
  C9: for every successful call with a non-empty allow-list, \<open>total_records\<close> is the
  number of rows of the whole input table, and it strictly exceeds the sum of
  \<open>records_count\<close> as soon as one row has a device value outside the list.
\<close>

theorem total_records_unfiltered:
  assumes "filter_data_by_device pd f od c ff (Some sd) w = (Stats st, w')"
    and "load_table pd f = Inr df"
    and "sd \<noteq> []"
  shows "total_records st = length (rows df)
       \<and> ((\<exists>r\<in>set (rows df). \<not> py_in (cell c r) sd) \<longrightarrow> counted st < total_records st)"
proof -
  from filter_Stats[OF assms(1,2)] obtain ks w4 where
    pr: "process_devices df od c ff ks
          \<lparr>total_devices = length ks, total_records = length (rows df),
             devices_processed = [], output_files = []\<rparr>
          (w\<lparr>dirs := insert od (dirs w), stdout := stdout w @ [Reading f, Found (length ks) ks]\<rparr>)
          = (Inr st, w4)"
    by blast
  from process_devices_Inr[OF pr] have tr: "total_records st = length (rows df)" by simp
  have "counted st < length (rows df)" if "r \<in> set (rows df)" "\<not> py_in (cell c r) sd" for r
  proof -
    from that(2) assms(3) have "\<not> selected (Some sd) (cell c r)" by simp
    with that(1) show ?thesis
      unfolding counted_selected[OF assms(1,2)] selected_rows_def
      by (rule length_filter_less)
  qed
  with tr show ?thesis by auto
qed

theorem total_records_unfiltered_witness:
  "run scenario ''csv'' (Some [''B'', ''Z''])
     = (Stats only_B_stats, snd (run scenario ''csv'' (Some [''B'', ''Z''])))
   \<and> load_table (csv_lib scenario) ''device_log.csv'' = Inr scenario
   \<and> [''B'', ''Z''] \<noteq> []
   \<and> \<not> py_in (cell ''device'' [(''id'', Num 1), (''device'', Str ''A'')]) [''B'', ''Z'']
   \<and> total_records only_B_stats = length (rows scenario)
   \<and> counted only_B_stats < total_records only_B_stats"
proof -
  have "fst (run scenario ''csv'' (Some [''B'', ''Z''])) = Stats only_B_stats"
    by code_simp
  then have r: "run scenario ''csv'' (Some [''B'', ''Z''])
     = (Stats only_B_stats, snd (run scenario ''csv'' (Some [''B'', ''Z''])))"
    by (simp add: prod_eq_iff)
  have n: "[''B'', ''Z''] \<noteq> ([] :: string list)" by simp
  have x: "\<not> py_in (cell ''device'' [(''id'', Num 1), (''device'', Str ''A'')]) [''B'', ''Z'']"
    by (simp add: cell_def)
  have m: "[(''id'', Num 1), (''device'', Str ''A'')] \<in> set (rows scenario)"
    by (simp add: scenario_def)
  from total_records_unfiltered[OF r[unfolded run_def] load_scenario n] x m r load_scenario
  show ?thesis by blast
qed

section \<open>A missing device column (C3)\<close>

text \<open>
  C3: for every loaded table without the given device column, the call returns the empty
  mapping, leaves the files and the directories as they were, and the error is caught: it
  is printed, not raised.
\<close>

theorem missing_column_empty:
  assumes "load_table pd f = Inr df" and "c \<notin> set (columns df)"
  shows "fst (filter_data_by_device pd f od c ff sd w) = Empty
       \<and> files (snd (filter_data_by_device pd f od c ff sd w)) = files w
       \<and> dirs (snd (filter_data_by_device pd f od c ff sd w)) = dirs w
       \<and> stdout (snd (filter_data_by_device pd f od c ff sd w))
           = stdout w @ [Reading f, Failure (MissingColumn c)]"
  using assms
  by (simp add: filter_data_by_device_def filter_body_def Let_def print_def)

theorem missing_column_empty_witness:
  "load_table (csv_lib scenario) ''device_log.csv'' = Inr scenario
   \<and> ''dev'' \<notin> set (columns scenario)
   \<and> fst (filter_data_by_device (csv_lib scenario) ''device_log.csv'' ''device_data'' ''dev''
            ''csv'' None world0) = Empty
   \<and> files (snd (filter_data_by_device (csv_lib scenario) ''device_log.csv'' ''device_data''
            ''dev'' ''csv'' None world0)) = files world0
   \<and> dirs (snd (filter_data_by_device (csv_lib scenario) ''device_log.csv'' ''device_data''
            ''dev'' ''csv'' None world0)) = dirs world0"
proof -
  have c: "''dev'' \<notin> set (columns scenario)" by (simp add: scenario_def)
  from missing_column_empty[OF load_scenario c, of "''device_data''" "''csv''" None world0]
    load_scenario c
  show ?thesis by simp
qed

section \<open>An allow-list that selects nothing (C4)\<close>

text \<open>
  C4 as stated fails on the code: the empty list is an allow-list that meets no device key,
  yet the test of line 50 takes it for no list, and every device is processed.
\<close>

theorem empty_selection_counterexample:
  "fst (run scenario ''csv'' (Some [])) = Stats scenario_stats
   \<and> set (unique (column_values scenario ''device'')) \<inter> Str ` set [] = {}"
proof -
  have "fst (run scenario ''csv'' (Some [])) = Stats scenario_stats"
    by code_simp
  then show ?thesis by simp
qed

text \<open>
  C4, amended: for every call whose table loads with the device column, whose output
  directory can be created, and whose allow-list is given and not empty: when the list
  meets no discovered device key, the call returns the empty mapping after printing the
  notice, with no error caught; and whenever the call returns statistics, the keys
  processed are exactly the discovered keys that are in the list, in their order of
  discovery, one output file each.
\<close>

theorem empty_selection:
  assumes "load_table pd f = Inr df" and "c \<in> set (columns df)"
    and "od \<noteq> []" and "od \<notin> refused w" and "sd \<noteq> []"
  shows "(set (unique (column_values df c)) \<inter> Str ` set sd = {} \<longrightarrow>
            filter_data_by_device pd f od c ff (Some sd) w
              = (Empty, w\<lparr>dirs := insert od (dirs w),
                          stdout := stdout w @ [Reading f, NoDeviceInList]\<rparr>))
       \<and> (\<forall>st w'. filter_data_by_device pd f od c ff (Some sd) w = (Stats st, w') \<longrightarrow>
            map fst (devices_processed st)
              = filter (\<lambda>d. d \<in> Str ` set sd) (unique (column_values df c))
            \<and> total_devices st = length (devices_processed st)
            \<and> output_files st = map (output_path od ff) (map fst (devices_processed st)))"
proof (intro conjI impI allI)
  assume "set (unique (column_values df c)) \<inter> Str ` set sd = {}"
  with assms show "filter_data_by_device pd f od c ff (Some sd) w
              = (Empty, w\<lparr>dirs := insert od (dirs w),
                          stdout := stdout w @ [Reading f, NoDeviceInList]\<rparr>)"
    by (simp add: filter_data_by_device_def filter_body_def Let_def print_def makedirs_def
          restrict_nonempty del: restrict_devices.simps)
next
  fix st w'
  assume res: "filter_data_by_device pd f od c ff (Some sd) w = (Stats st, w')"
  from filter_Stats[OF res assms(1)] obtain ks w4 where
    rd: "restrict_devices (Some sd) (unique (column_values df c)) = Some ks"
    and pr: "process_devices df od c ff ks
          \<lparr>total_devices = length ks, total_records = length (rows df),
             devices_processed = [], output_files = []\<rparr>
          (w\<lparr>dirs := insert od (dirs w), stdout := stdout w @ [Reading f, Found (length ks) ks]\<rparr>)
          = (Inr st, w4)"
    by blast
  from rd assms(5) have ks: "ks = filter (\<lambda>d. d \<in> Str ` set sd) (unique (column_values df c))"
    by (simp add: restrict_nonempty del: restrict_devices.simps split: if_splits)
  from restrict_devices_Some[OF rd] have dk: "distinct ks" by simp
  from process_devices_processed[OF pr dk]
  have dp: "map fst (devices_processed st) = ks" by (simp add: comp_def)
  from process_devices_Inr[OF pr] have td: "total_devices st = length ks"
    and outs: "output_files st = map (output_path od ff) ks" by simp_all
  from dp have len: "length (devices_processed st) = length ks"
    by (metis length_map)
  show "map fst (devices_processed st)
          = filter (\<lambda>d. d \<in> Str ` set sd) (unique (column_values df c))"
    using dp ks by simp
  show "total_devices st = length (devices_processed st)" using td len by simp
  show "output_files st = map (output_path od ff) (map fst (devices_processed st))"
    using outs dp by simp
qed

theorem empty_selection_witness:
  "load_table (csv_lib scenario) ''device_log.csv'' = Inr scenario
   \<and> ''device'' \<in> set (columns scenario)
   \<and> ''device_data'' \<noteq> [] \<and> ''device_data'' \<notin> refused world0
   \<and> [''Z''] \<noteq> [] \<and> [''B'', ''Z''] \<noteq> []
   \<and> set (unique (column_values scenario ''device'')) \<inter> Str ` set [''Z''] = {}
   \<and> run scenario ''csv'' (Some [''Z''])
       = (Empty, world0\<lparr>dirs := insert ''device_data'' (dirs world0),
                        stdout := stdout world0 @ [Reading ''device_log.csv'', NoDeviceInList]\<rparr>)
   \<and> run scenario ''csv'' (Some [''B'', ''Z''])
       = (Stats only_B_stats, snd (run scenario ''csv'' (Some [''B'', ''Z''])))
   \<and> map fst (devices_processed only_B_stats) = [Str ''B'']
   \<and> total_devices only_B_stats = length (devices_processed only_B_stats)"
proof -
  note od = world0_accepts[THEN conjunct1] and rf = world0_accepts[THEN conjunct2]
  have nz: "[''Z''] \<noteq> ([] :: string list)" and nb: "[''B'', ''Z''] \<noteq> ([] :: string list)"
    by simp_all
  have e: "set (unique (column_values scenario ''device'')) \<inter> Str ` set [''Z''] = {}"
    by (simp add: unique_def column_values_def cell_def scenario_def)
  have "fst (run scenario ''csv'' (Some [''B'', ''Z''])) = Stats only_B_stats"
    by code_simp
  then have r: "run scenario ''csv'' (Some [''B'', ''Z''])
     = (Stats only_B_stats, snd (run scenario ''csv'' (Some [''B'', ''Z''])))"
    by (simp add: prod_eq_iff)
  have k: "filter (\<lambda>d. d \<in> Str ` set [''B'', ''Z'']) (unique (column_values scenario ''device''))
             = [Str ''B'']"
    by (simp add: unique_def column_values_def cell_def scenario_def)
  from empty_selection[OF load_scenario scenario_has_device od rf nz, of "''csv''"] e
  have one: "run scenario ''csv'' (Some [''Z''])
       = (Empty, world0\<lparr>dirs := insert ''device_data'' (dirs world0),
                        stdout := stdout world0 @ [Reading ''device_log.csv'', NoDeviceInList]\<rparr>)"
    unfolding run_def by blast
  from empty_selection[OF load_scenario scenario_has_device od rf nb, of "''csv''"]
    r[unfolded run_def]
  have two: "map fst (devices_processed only_B_stats)
               = filter (\<lambda>d. d \<in> Str ` set [''B'', ''Z'']) (unique (column_values scenario ''device''))
             \<and> total_devices only_B_stats = length (devices_processed only_B_stats)"
    by blast
  from one two k r e nz nb od rf load_scenario scenario_has_device show ?thesis
    by simp
qed

section \<open>The output format (C5 and C10)\<close>

text \<open>
  C5: a format other than \<open>csv\<close>, \<open>json\<close>, \<open>excel\<close> is to end in the empty mapping. On
  a table with a header and no row the loop body, which holds the only test of the format,
  never runs, and the call returns the four-key statistics.
\<close>

theorem unsupported_format_undetected:
  "\<not> supported ''xml'' \<and> fst (run header_only ''xml'' None) = Stats no_device_stats"
proof -
  have x: "\<not> supported ''xml''"
    by (simp add: supported_def lower_def lower_char_def)
  have "fst (run header_only ''xml'' None) = Stats no_device_stats"
    by code_simp
  with x show ?thesis by simp
qed



section \<open>The sanitized file name (C6)\<close>



section \<open>The summary (C7 and C8)\<close>

text \<open>
  C7: without an \<open>online\<close> column the summary is to show the marker \<open>N/A\<close> for every
  group. The aggregation names the column as a key of its dict, so the library raises a key
  error before the function of line 133 is ever called, and the empty table is returned.
\<close>

theorem online_marker_unreachable:
  "''online'' \<notin> set (columns no_online)
   \<and> get_device_summary (csv_lib no_online) ''data.csv'' ''device'' world0
       = (empty_frame, world0\<lparr>stdout := [SummaryFailure (KeyError [''online''])]\<rparr>)"
  by (simp add: get_device_summary_def summary_body_def eval_defs groupby_def agg_def
        agg_keys_def no_online_def)

text \<open>
  C8: for every loaded table without an \<open>id\<close> column the summary fails with a key error,
  which is caught and printed, and the empty table is returned.
\<close>

theorem summary_requires_id:
  assumes "load_table pd f = Inr df" and "''id'' \<notin> set (columns df)"
  shows "fst (get_device_summary pd f c w) = empty_frame
       \<and> (\<exists>missing. stdout (snd (get_device_summary pd f c w))
              = stdout w @ [SummaryFailure (KeyError missing)])"
  using assms
  by (auto simp: get_device_summary_def summary_body_def groupby_def agg_def agg_keys_def
        print_def Let_def split: sum.splits)

theorem summary_requires_id_witness:
  "load_table (csv_lib no_id) ''data.csv'' = Inr no_id
   \<and> ''id'' \<notin> set (columns no_id)
   \<and> fst (get_device_summary (csv_lib no_id) ''data.csv'' ''device'' world0) = empty_frame"
proof -
  have l: "load_table (csv_lib no_id) ''data.csv'' = Inr no_id"
    by (simp add: eval_defs)
  have i: "''id'' \<notin> set (columns no_id)" by (simp add: no_id_def)
  from summary_requires_id[OF l i, of "''device''" world0] l i show ?thesis by simp
qed

end
